theory Spec2Isabelle
  imports Complex_Main
begin

section \<open>Arithmetic on \<^verbatim>\<open>double\<close>\<close>

text \<open>
  The four solvers of \<^verbatim>\<open>src/roots/roots.cpp\<close> compute on C++ \<^verbatim>\<open>double\<close>. The solvers are
  embedded over an arbitrary carrier \<open>'d\<close> whose operations are passed in as a record, so
  that every theorem stated for all \<open>A\<close> holds whatever the arithmetic does (rounding,
  overflow, signed zeros, infinities, NaN).

  A comparison of two doubles has one of four mutually exclusive results; the C++
  operators \<^verbatim>\<open><\<close>, \<^verbatim>\<open>>\<close>, \<^verbatim>\<open>>=\<close> and \<^verbatim>\<open>==\<close> are read off that result, and all of them are
  false on an unordered pair.
\<close>

datatype frel = FLess | FEqual | FGreater | FUnordered

record 'd fp =
  fadd :: "'d \<Rightarrow> 'd \<Rightarrow> 'd"
  fsub :: "'d \<Rightarrow> 'd \<Rightarrow> 'd"
  fmul :: "'d \<Rightarrow> 'd \<Rightarrow> 'd"
  fdiv :: "'d \<Rightarrow> 'd \<Rightarrow> 'd"
  fabs :: "'d \<Rightarrow> 'd"
  fcmp :: "'d \<Rightarrow> 'd \<Rightarrow> frel"
  lit_zero :: "'d"
  lit_two :: "'d"
  lit_tol :: "'d"

text \<open>
  \<open>fabs\<close> is \<^verbatim>\<open>std::abs\<close>; \<open>lit_zero\<close>, \<open>lit_two\<close> and \<open>lit_tol\<close> are the literals \<^verbatim>\<open>0\<close>, \<^verbatim>\<open>2\<close>
  (both converted from \<^verbatim>\<open>int\<close>) and \<^verbatim>\<open>1e-6\<close>.
\<close>

definition flt :: "'d fp \<Rightarrow> 'd \<Rightarrow> 'd \<Rightarrow> bool" where
  "flt A x y = (fcmp A x y = FLess)"

definition fgt :: "'d fp \<Rightarrow> 'd \<Rightarrow> 'd \<Rightarrow> bool" where
  "fgt A x y = (fcmp A x y = FGreater)"

definition fge :: "'d fp \<Rightarrow> 'd \<Rightarrow> 'd \<Rightarrow> bool" where
  "fge A x y = (fcmp A x y = FGreater \<or> fcmp A x y = FEqual)"

definition feq :: "'d fp \<Rightarrow> 'd \<Rightarrow> 'd \<Rightarrow> bool" where
  "feq A x y = (fcmp A x y = FEqual)"

section \<open>The solvers\<close>

text \<open>
  A solver is \<^verbatim>\<open>bool solver(..., double *root)\<close>. Its embedding takes the value stored at
  \<^verbatim>\<open>*root\<close> before the call and returns the \<^verbatim>\<open>bool\<close>, the value stored at \<^verbatim>\<open>*root\<close> after
  the call, and the number of loop bodies that were entered (a ghost counter, not a
  value of the program).
\<close>

datatype 'd outcome = Outcome (found: bool) (root_out: "'d") (iterations: nat)

definition tick :: "'d outcome \<Rightarrow> 'd outcome" where
  "tick r = Outcome (found r) (root_out r) (Suc (iterations r))"

text \<open>
  One pass through a loop body ends in \<^verbatim>\<open>return false\<close>, in
  \<^verbatim>\<open>*root = x; return true\<close>, or falls through to the next iteration with new values of
  the loop's variables.
\<close>

datatype ('s, 'd) flow = ReturnFalse | ReturnRoot "'d" | Continue "'s"

text \<open>
  \<^verbatim>\<open>for (int count = start; count < 1e6; count++) { body }  return false;\<close>
  The counter stays within \<open>0 .. 1000000\<close>, where the conversion of \<^verbatim>\<open>count\<close> to
  \<^verbatim>\<open>double\<close> is exact and \<^verbatim>\<open>int\<close> does not overflow.
\<close>

function for_loop :: "nat \<Rightarrow> ('s \<Rightarrow> ('s, 'd) flow) \<Rightarrow> 's \<Rightarrow> 'd \<Rightarrow> 'd outcome" where
  "for_loop count body s root_in =
     (if count < 1000000 then
        (case body s of
           ReturnFalse \<Rightarrow> Outcome False root_in 1
         | ReturnRoot x \<Rightarrow> Outcome True x 1
         | Continue s' \<Rightarrow> tick (for_loop (count + 1) body s' root_in))
      else Outcome False root_in 0)"
  by pat_completeness auto
termination
  by (relation "measure (\<lambda>(count, body, s, root_in). 1000000 - count)") auto

declare for_loop.simps [simp del]

subsection \<open>Bisection\<close>

definition bisection_body :: "'d fp \<Rightarrow> ('d \<Rightarrow> 'd) \<Rightarrow> 'd \<times> 'd \<Rightarrow> ('d \<times> 'd, 'd) flow" where
  "bisection_body A f = (\<lambda>(a, b).
     let c = fdiv A (fadd A a b) (lit_two A) in
     if flt A (fabs A (f c)) (lit_tol A) \<or> flt A (fabs A (fsub A b a)) (lit_tol A)
     then ReturnRoot c
     else if fgt A (fmul A (f a) (f c)) (lit_zero A) then Continue (c, b)
     else Continue (a, c))"

definition bisection :: "'d fp \<Rightarrow> ('d \<Rightarrow> 'd) \<Rightarrow> 'd \<Rightarrow> 'd \<Rightarrow> 'd \<Rightarrow> 'd outcome" where
  "bisection A f a b root_in =
     (if feq A (f a) (lit_zero A) then Outcome True a 0
      else if feq A (f b) (lit_zero A) then Outcome True b 0
      else if fgt A (fmul A (f a) (f b)) (lit_zero A) then Outcome False root_in 0
      else for_loop 0 (bisection_body A f) (a, b) root_in)"

subsection \<open>Regula falsi\<close>

definition regula_falsi_body :: "'d fp \<Rightarrow> ('d \<Rightarrow> 'd) \<Rightarrow> 'd \<times> 'd \<Rightarrow> ('d \<times> 'd, 'd) flow" where
  "regula_falsi_body A f = (\<lambda>(a, b).
     let c = fsub A a (fdiv A (fmul A (f a) (fsub A b a)) (fsub A (f b) (f a))) in
     if flt A (fabs A (f c)) (lit_tol A) \<or> flt A (fabs A (fsub A b a)) (lit_tol A)
     then ReturnRoot c
     else if fgt A (fmul A (f a) (f c)) (lit_zero A) then Continue (c, b)
     else Continue (a, c))"

definition regula_falsi :: "'d fp \<Rightarrow> ('d \<Rightarrow> 'd) \<Rightarrow> 'd \<Rightarrow> 'd \<Rightarrow> 'd \<Rightarrow> 'd outcome" where
  "regula_falsi A f a b root_in =
     (if fge A (fmul A (f a) (f b)) (lit_zero A) then Outcome False root_in 0
      else for_loop 0 (regula_falsi_body A f) (a, b) root_in)"

subsection \<open>Newton-Raphson\<close>

definition newton_raphson_body ::
  "'d fp \<Rightarrow> ('d \<Rightarrow> 'd) \<Rightarrow> ('d \<Rightarrow> 'd) \<Rightarrow> 'd \<Rightarrow> 'd \<Rightarrow> 'd \<Rightarrow> ('d, 'd) flow" where
  "newton_raphson_body A f g a b = (\<lambda>xn.
     let fx = f xn; dfx = g xn in
     if flt A (fabs A dfx) (lit_tol A) then ReturnFalse
     else
       let next_xn = fsub A xn (fdiv A fx dfx) in
       if flt A next_xn a \<or> fgt A next_xn b then ReturnFalse
       else if flt A (fabs A (fsub A next_xn xn)) (lit_tol A) then ReturnRoot next_xn
       else Continue next_xn)"

definition newton_raphson ::
  "'d fp \<Rightarrow> ('d \<Rightarrow> 'd) \<Rightarrow> ('d \<Rightarrow> 'd) \<Rightarrow> 'd \<Rightarrow> 'd \<Rightarrow> 'd \<Rightarrow> 'd \<Rightarrow> 'd outcome" where
  "newton_raphson A f g a b c root_in =
     (let xn = c in for_loop 1 (newton_raphson_body A f g a b) xn root_in)"

subsection \<open>Secant\<close>

definition secant_body ::
  "'d fp \<Rightarrow> ('d \<Rightarrow> 'd) \<Rightarrow> 'd \<Rightarrow> 'd \<Rightarrow> 'd \<times> 'd \<Rightarrow> ('d \<times> 'd, 'd) flow" where
  "secant_body A f a b = (\<lambda>(prev_xn, xn).
     let fxn = f xn; fprev_xn = f prev_xn in
     if flt A (fabs A (fsub A fxn fprev_xn)) (lit_tol A) then ReturnFalse
     else
       let next_xn = fsub A xn (fdiv A (fmul A fxn (fsub A xn prev_xn)) (fsub A fxn fprev_xn)) in
       if flt A next_xn a \<or> fgt A next_xn b then ReturnFalse
       else if flt A (fabs A (fsub A next_xn xn)) (lit_tol A) then ReturnRoot next_xn
       else Continue (xn, next_xn))"

definition secant :: "'d fp \<Rightarrow> ('d \<Rightarrow> 'd) \<Rightarrow> 'd \<Rightarrow> 'd \<Rightarrow> 'd \<Rightarrow> 'd \<Rightarrow> 'd outcome" where
  "secant A f a b c root_in =
     (let prev_xn = a; xn = b in for_loop 0 (secant_body A f a b) (prev_xn, xn) root_in)"

section \<open>The state at the start of an iteration\<close>

text \<open>
  \<open>after_iters n body s\<close> is the value of the loop's variables after \<open>n\<close> passes through
  the body that all fell through to the next iteration, starting from \<open>s\<close>; it is \<open>None\<close>
  when one of these passes returned.
\<close>

fun after_iters :: "nat \<Rightarrow> ('s \<Rightarrow> ('s, 'd) flow) \<Rightarrow> 's \<Rightarrow> 's option" where
  "after_iters 0 body s = Some s"
| "after_iters (Suc n) body s =
     (case after_iters n body s of
        None \<Rightarrow> None
      | Some t \<Rightarrow> (case body t of Continue t' \<Rightarrow> Some t' | _ \<Rightarrow> None))"

section \<open>An arithmetic to compute with\<close>

text \<open>
  Real arithmetic without rounding, extended by the two infinities and NaN as \<^verbatim>\<open>double\<close> has
  them: every operation propagates NaN, which compares unordered with everything;
  \<open>inf - inf\<close>, \<open>0 * inf\<close>, \<open>0 / 0\<close> and \<open>inf / inf\<close> are NaN; a nonzero number divided by zero
  is an infinity. Zero has no sign here, so that a division by zero takes the sign of the
  dividend, as a division by \<open>+0\<close> does. The literal \<^verbatim>\<open>1e-6\<close> is the real \<open>10\<^sup>-\<^sup>6\<close>.
  A run in which every number computed is one that \<^verbatim>\<open>double\<close> represents and obtains without
  rounding, no zero that is divided by is a negative zero of the C++ run, and no value
  compared with \<^verbatim>\<open>1e-6\<close> is within a rounding error of it, is step by step the run of the C++
  code. The runs evaluated in this theory are of that kind.
\<close>

datatype xreal = Fin real | PInf | NInf | NaN

fun xadd :: "xreal \<Rightarrow> xreal \<Rightarrow> xreal" where
  "xadd (Fin x) (Fin y) = Fin (x + y)"
| "xadd NaN _ = NaN"
| "xadd _ NaN = NaN"
| "xadd PInf NInf = NaN"
| "xadd NInf PInf = NaN"
| "xadd PInf _ = PInf"
| "xadd _ PInf = PInf"
| "xadd NInf _ = NInf"
| "xadd _ NInf = NInf"

fun xsub :: "xreal \<Rightarrow> xreal \<Rightarrow> xreal" where
  "xsub (Fin x) (Fin y) = Fin (x - y)"
| "xsub NaN _ = NaN"
| "xsub _ NaN = NaN"
| "xsub PInf PInf = NaN"
| "xsub NInf NInf = NaN"
| "xsub PInf _ = PInf"
| "xsub _ PInf = NInf"
| "xsub NInf _ = NInf"
| "xsub _ NInf = PInf"

fun xmul :: "xreal \<Rightarrow> xreal \<Rightarrow> xreal" where
  "xmul (Fin x) (Fin y) = Fin (x * y)"
| "xmul NaN _ = NaN"
| "xmul _ NaN = NaN"
| "xmul PInf (Fin y) = (if y = 0 then NaN else if 0 < y then PInf else NInf)"
| "xmul NInf (Fin y) = (if y = 0 then NaN else if 0 < y then NInf else PInf)"
| "xmul (Fin x) PInf = (if x = 0 then NaN else if 0 < x then PInf else NInf)"
| "xmul (Fin x) NInf = (if x = 0 then NaN else if 0 < x then NInf else PInf)"
| "xmul PInf PInf = PInf"
| "xmul PInf NInf = NInf"
| "xmul NInf PInf = NInf"
| "xmul NInf NInf = PInf"

fun xdiv :: "xreal \<Rightarrow> xreal \<Rightarrow> xreal" where
  "xdiv (Fin x) (Fin y) =
     (if y \<noteq> 0 then Fin (x / y) else if x = 0 then NaN else if 0 < x then PInf else NInf)"
| "xdiv NaN _ = NaN"
| "xdiv _ NaN = NaN"
| "xdiv (Fin x) PInf = Fin 0"
| "xdiv (Fin x) NInf = Fin 0"
| "xdiv PInf (Fin y) = (if 0 \<le> y then PInf else NInf)"
| "xdiv NInf (Fin y) = (if 0 \<le> y then NInf else PInf)"
| "xdiv PInf PInf = NaN"
| "xdiv PInf NInf = NaN"
| "xdiv NInf PInf = NaN"
| "xdiv NInf NInf = NaN"

fun xabs :: "xreal \<Rightarrow> xreal" where
  "xabs (Fin x) = Fin \<bar>x\<bar>"
| "xabs PInf = PInf"
| "xabs NInf = PInf"
| "xabs NaN = NaN"

fun xcmp :: "xreal \<Rightarrow> xreal \<Rightarrow> frel" where
  "xcmp (Fin x) (Fin y) = (if x < y then FLess else if x = y then FEqual else FGreater)"
| "xcmp NaN _ = FUnordered"
| "xcmp _ NaN = FUnordered"
| "xcmp PInf PInf = FEqual"
| "xcmp NInf NInf = FEqual"
| "xcmp PInf _ = FGreater"
| "xcmp _ PInf = FLess"
| "xcmp NInf _ = FLess"
| "xcmp _ NInf = FGreater"

definition exact :: "xreal fp" where
  "exact = \<lparr> fadd = xadd, fsub = xsub, fmul = xmul, fdiv = xdiv, fabs = xabs, fcmp = xcmp,
             lit_zero = Fin 0, lit_two = Fin 2, lit_tol = Fin (1 / 1000000) \<rparr>"

text \<open>
  The same arithmetic with the underflow of products: a product of two numbers whose
  magnitude is at most \<open>2\<^sup>-\<^sup>1\<^sup>0\<^sup>7\<^sup>5\<close>, half of the smallest positive \<^verbatim>\<open>double\<close> \<open>2\<^sup>-\<^sup>1\<^sup>0\<^sup>7\<^sup>4\<close>, is zero,
  as rounding to the nearest \<^verbatim>\<open>double\<close> (ties to even) makes it.
\<close>

fun xmul_underflow :: "xreal \<Rightarrow> xreal \<Rightarrow> xreal" where
  "xmul_underflow (Fin x) (Fin y) = (if \<bar>x * y\<bar> \<le> 1 / 2 ^ 1075 then Fin 0 else Fin (x * y))"
| "xmul_underflow x y = xmul x y"

definition underflowing :: "xreal fp" where
  "underflowing = exact \<lparr> fmul := xmul_underflow \<rparr>"

text \<open>
  \<^verbatim>\<open>f(x) = x == 0 ? 0x1p-1074 : -x * x / 4\<close>: the smallest positive \<^verbatim>\<open>double\<close> at 0, \<open>-1/4\<close> at 1
  and \<open>-1\<close> at 2.
\<close>

definition tiny_at_zero :: "xreal \<Rightarrow> xreal" where
  "tiny_at_zero x =
     (if xcmp x (Fin 0) = FEqual then Fin (1 / 2 ^ 1074)
      else xdiv (xmul_underflow (xsub (Fin 0) x) x) (Fin 4))"

section \<open>Sign laws of an arithmetic\<close>

text \<open>
  The sign of a value is its comparison with the literal 0. \<open>product_sign A x y\<close> says that
  the product of \<open>x\<close> and \<open>y\<close> in \<open>A\<close> has the sign that the signs of \<open>x\<close> and \<open>y\<close> give: the
  product of two values of one sign is positive, of two values of opposite signs negative,
  a product with a zero is zero, and a product with an unordered value is unordered. In
  \<^verbatim>\<open>double\<close> arithmetic the law holds for a pair of numbers unless their product underflows
  to zero, and fails for zero times an infinity. It is a hypothesis of theorems, never a
  part of a solver.
\<close>

definition sign_of :: "'d fp \<Rightarrow> 'd \<Rightarrow> frel" where
  "sign_of A x = fcmp A x (lit_zero A)"

fun sign_times :: "frel \<Rightarrow> frel \<Rightarrow> frel" where
  "sign_times FUnordered _ = FUnordered"
| "sign_times _ FUnordered = FUnordered"
| "sign_times FEqual _ = FEqual"
| "sign_times _ FEqual = FEqual"
| "sign_times FLess FLess = FGreater"
| "sign_times FLess FGreater = FLess"
| "sign_times FGreater FLess = FLess"
| "sign_times FGreater FGreater = FGreater"

definition product_sign :: "'d fp \<Rightarrow> 'd \<Rightarrow> 'd \<Rightarrow> bool" where
  "product_sign A x y = (sign_of A (fmul A x y) = sign_times (sign_of A x) (sign_of A y))"

section \<open>Properties of the loop\<close>

lemma tick_funpow: "(tick ^^ n) (Outcome ok x k) = Outcome ok x (k + n)"
  by (induction n) (simp_all add: tick_def)

lemma found_tick: "found (tick r) = found r"
  by (simp add: tick_def)

lemma root_out_tick: "root_out (tick r) = root_out r"
  by (simp add: tick_def)

lemma iterations_tick: "iterations (tick r) = Suc (iterations r)"
  by (simp add: tick_def)

lemma for_loop_iterations: "iterations (for_loop count body s r) \<le> 1000000 - count"
proof (induction count body s r rule: for_loop.induct)
  case (1 count body s r)
  show ?case
  proof (cases "count < 1000000")
    case False
    then show ?thesis by (simp add: for_loop.simps [of count])
  next
    case True
    show ?thesis
    proof (cases "body s")
      case ReturnFalse
      with True show ?thesis by (simp add: for_loop.simps [of count])
    next
      case (ReturnRoot x)
      with True show ?thesis by (simp add: for_loop.simps [of count])
    next
      case (Continue s')
      with True "1.IH" [of s'] show ?thesis
        by (simp add: for_loop.simps [of count] iterations_tick)
    qed
  qed
qed

lemma for_loop_frame: "\<not> found (for_loop count body s r) \<Longrightarrow> root_out (for_loop count body s r) = r"
proof (induction count body s r rule: for_loop.induct)
  case (1 count body s r)
  show ?case
  proof (cases "count < 1000000")
    case False
    then show ?thesis by (simp add: for_loop.simps [of count])
  next
    case True
    show ?thesis
    proof (cases "body s")
      case ReturnFalse
      with True show ?thesis by (simp add: for_loop.simps [of count])
    next
      case (ReturnRoot x)
      with True "1.prems" show ?thesis by (simp add: for_loop.simps [of count])
    next
      case (Continue s')
      with True "1.prems" "1.IH" [of s'] show ?thesis
        by (simp add: for_loop.simps [of count] found_tick root_out_tick)
    qed
  qed
qed

lemma after_iters_front:
  "after_iters (Suc n) body s =
     (case body s of Continue s' \<Rightarrow> after_iters n body s' | _ \<Rightarrow> None)"
proof (induction n)
  case 0
  show ?case by (simp split: flow.splits)
next
  case (Suc n)
  have "after_iters (Suc (Suc n)) body s =
          (case after_iters (Suc n) body s of
             None \<Rightarrow> None
           | Some t \<Rightarrow> (case body t of Continue t' \<Rightarrow> Some t' | _ \<Rightarrow> None))"
    by simp
  also have "\<dots> = (case body s of Continue s' \<Rightarrow> after_iters (Suc n) body s' | _ \<Rightarrow> None)"
    by (simp only: Suc.IH) (simp split: flow.splits)
  finally show ?case .
qed

lemma for_loop_after_iters:
  "after_iters n body s = Some t \<Longrightarrow> count + n \<le> 1000000 \<Longrightarrow>
   for_loop count body s r = (tick ^^ n) (for_loop (count + n) body t r)"
proof (induction n arbitrary: count s)
  case 0
  then show ?case by simp
next
  case (Suc n)
  from Suc.prems(1)
  have "(case body s of Continue s' \<Rightarrow> after_iters n body s' | _ \<Rightarrow> None) = Some t"
    by (simp only: after_iters_front)
  then obtain s' where b: "body s = Continue s'" and a: "after_iters n body s' = Some t"
    by (cases "body s") simp_all
  from Suc.prems(2) have lt: "count < 1000000" and le: "(count + 1) + n \<le> 1000000" by simp_all
  have "for_loop count body s r = tick (for_loop (count + 1) body s' r)"
    using b lt by (simp add: for_loop.simps [of count])
  also have "\<dots> = tick ((tick ^^ n) (for_loop ((count + 1) + n) body t r))"
    using Suc.IH [OF a le] by simp
  finally show ?case by (simp add: funpow_swap1)
qed

lemma for_loop_returns_root:
  assumes "after_iters n body s = Some t" and "count + n < 1000000" and "body t = ReturnRoot x"
  shows "for_loop count body s r = Outcome True x (Suc n)"
proof -
  have "for_loop (count + n) body t r = Outcome True x 1"
    using assms(2,3) by (simp add: for_loop.simps [of "count + n"])
  with for_loop_after_iters [OF assms(1), of count r] assms(2) show ?thesis
    by (simp add: tick_funpow)
qed

lemma for_loop_returns_false:
  assumes "after_iters n body s = Some t" and "count + n < 1000000" and "body t = ReturnFalse"
  shows "for_loop count body s r = Outcome False r (Suc n)"
proof -
  have "for_loop (count + n) body t r = Outcome False r 1"
    using assms(2,3) by (simp add: for_loop.simps [of "count + n"])
  with for_loop_after_iters [OF assms(1), of count r] assms(2) show ?thesis
    by (simp add: tick_funpow)
qed

lemma for_loop_exhausted:
  assumes "after_iters (1000000 - count) body s = Some t"
  shows "for_loop count body s r = Outcome False r (1000000 - count)"
proof (cases "count \<le> 1000000")
  case True
  then have eq: "count + (1000000 - count) = 1000000" by simp
  have "for_loop 1000000 body t r = Outcome False r 0"
    by (simp add: for_loop.simps [of 1000000])
  with for_loop_after_iters [OF assms, of count r] eq show ?thesis
    by (simp add: tick_funpow)
next
  case False
  then show ?thesis by (simp add: for_loop.simps [of count])
qed

section \<open>Evaluating the solvers\<close>

lemmas eval_simps =
  bisection_def bisection_body_def regula_falsi_def regula_falsi_body_def
  newton_raphson_def newton_raphson_body_def secant_def secant_body_def
  exact_def flt_def fgt_def fge_def feq_def for_loop.simps tick_def Let_def

lemma after_iters_step:
  "after_iters n body s = Some t \<Longrightarrow> body t = Continue t' \<Longrightarrow> after_iters (Suc n) body s = Some t'"
  by simp

text \<open>
  A run that only the cap ends: \<open>f\<close> is the constant 1 and \<open>g\<close> the constant \<open>-1\<close>, so that
  Newton-Raphson steps from 0 through 1, 2, 3, ... inside the bounds \<open>[0, 1000000]\<close>.
\<close>

lemma newton_raphson_constant_iters:
  "n \<le> 999999 \<Longrightarrow>
   after_iters n (newton_raphson_body exact (\<lambda>x. Fin 1) (\<lambda>x. Fin (- 1)) (Fin 0) (Fin 1000000)) (Fin 0)
     = Some (Fin (real n))"
proof (induction n)
  case 0
  show ?case by simp
next
  case (Suc n)
  then have le: "real n + 1 \<le> 1000000" by simp
  have "newton_raphson_body exact (\<lambda>x. Fin 1) (\<lambda>x. Fin (- 1)) (Fin 0) (Fin 1000000) (Fin (real n))
      = Continue (Fin (real n + 1))"
    using le by (simp add: newton_raphson_body_def exact_def flt_def fgt_def Let_def)
  with Suc show ?case by (simp add: add.commute)
qed

lemma newton_raphson_constant_exhausts:
  "newton_raphson exact (\<lambda>x. Fin 1) (\<lambda>x. Fin (- 1)) (Fin 0) (Fin 1000000) (Fin 0) root_in
     = Outcome False root_in 999999"
  using for_loop_exhausted [of 1 "newton_raphson_body exact (\<lambda>x. Fin 1) (\<lambda>x. Fin (- 1)) (Fin 0) (Fin 1000000)"
      "Fin 0" "Fin 999999" root_in] newton_raphson_constant_iters [of 999999]
  by (simp add: newton_raphson_def)

section \<open>The claims\<close>

text \<open>
  C1. Let \<^verbatim>\<open>bisection\<close> pass its three checks before the loop, and let iteration \<open>n\<close> (counted
  from 0, below the cap) start with the bracket \<open>an\<close>, \<open>bn\<close>. With the midpoint
  \<open>c = (an + bn) / 2\<close>: if \<open>|f c| < 1e-6\<close> or \<open>|bn - an| < 1e-6\<close> (either alone), the call
  returns \<^verbatim>\<open>true\<close> with \<open>c\<close> stored at \<^verbatim>\<open>*root\<close>, in this iteration; otherwise the next
  iteration starts with the bracket \<open>c\<close>, \<open>bn\<close> when \<open>f an * f c > 0\<close>, and with \<open>an\<close>, \<open>c\<close>
  when not.
\<close>

theorem bisection_iteration:
  assumes "\<not> feq A (f a) (lit_zero A)" and "\<not> feq A (f b) (lit_zero A)"
    and "\<not> fgt A (fmul A (f a) (f b)) (lit_zero A)"
    and "after_iters n (bisection_body A f) (a, b) = Some (an, bn)" and "n < 1000000"
    and "c = fdiv A (fadd A an bn) (lit_two A)"
  shows
    "(flt A (fabs A (f c)) (lit_tol A) \<or> flt A (fabs A (fsub A bn an)) (lit_tol A) \<longrightarrow>
        bisection A f a b root_in = Outcome True c (Suc n)) \<and>
     (\<not> flt A (fabs A (f c)) (lit_tol A) \<and> \<not> flt A (fabs A (fsub A bn an)) (lit_tol A) \<and>
      fgt A (fmul A (f an) (f c)) (lit_zero A) \<longrightarrow>
        after_iters (Suc n) (bisection_body A f) (a, b) = Some (c, bn)) \<and>
     (\<not> flt A (fabs A (f c)) (lit_tol A) \<and> \<not> flt A (fabs A (fsub A bn an)) (lit_tol A) \<and>
      \<not> fgt A (fmul A (f an) (f c)) (lit_zero A) \<longrightarrow>
        after_iters (Suc n) (bisection_body A f) (a, b) = Some (an, c))"
proof (intro conjI impI)
  assume conv: "flt A (fabs A (f c)) (lit_tol A) \<or> flt A (fabs A (fsub A bn an)) (lit_tol A)"
  then have "bisection_body A f (an, bn) = ReturnRoot c"
    using assms(6) by (simp add: bisection_body_def Let_def)
  from for_loop_returns_root [OF assms(4) _ this, of 0 root_in] assms(5)
  have "for_loop 0 (bisection_body A f) (a, b) root_in = Outcome True c (Suc n)" by simp
  then show "bisection A f a b root_in = Outcome True c (Suc n)"
    using assms(1-3) by (simp add: bisection_def)
next
  assume "\<not> flt A (fabs A (f c)) (lit_tol A) \<and> \<not> flt A (fabs A (fsub A bn an)) (lit_tol A) \<and>
      fgt A (fmul A (f an) (f c)) (lit_zero A)"
  then have "bisection_body A f (an, bn) = Continue (c, bn)"
    using assms(6) by (simp add: bisection_body_def Let_def)
  with assms(4) show "after_iters (Suc n) (bisection_body A f) (a, b) = Some (c, bn)"
    by (rule after_iters_step)
next
  assume "\<not> flt A (fabs A (f c)) (lit_tol A) \<and> \<not> flt A (fabs A (fsub A bn an)) (lit_tol A) \<and>
      \<not> fgt A (fmul A (f an) (f c)) (lit_zero A)"
  then have "bisection_body A f (an, bn) = Continue (an, c)"
    using assms(6) by (simp add: bisection_body_def Let_def)
  with assms(4) show "after_iters (Suc n) (bisection_body A f) (a, b) = Some (an, c)"
    by (rule after_iters_step)
qed




theorem bisection_iteration_witness:
  "after_iters 1 (bisection_body exact (\<lambda>x. x)) (Fin (- 1), Fin 3) = Some (Fin (- 1), Fin 1) \<and>
   bisection exact (\<lambda>x. x) (Fin (- 1)) (Fin 3) (Fin 9) = Outcome True (Fin 0) 2 \<and>
   after_iters 1 (bisection_body exact (\<lambda>x. x)) (Fin (- 3), Fin 1) = Some (Fin (- 1), Fin 1)"
proof -
  note ev = exact_def flt_def fgt_def feq_def
  have pre: "\<not> feq exact (Fin (- 1)) (lit_zero exact)" "\<not> feq exact (Fin 3) (lit_zero exact)"
      "\<not> fgt exact (fmul exact (Fin (- 1)) (Fin 3)) (lit_zero exact)"
      "\<not> feq exact (Fin (- 3)) (lit_zero exact)" "\<not> feq exact (Fin 1) (lit_zero exact)"
      "\<not> fgt exact (fmul exact (Fin (- 3)) (Fin 1)) (lit_zero exact)"
    by (simp_all add: ev)
  have mid: "Fin 1 = fdiv exact (fadd exact (Fin (- 1)) (Fin 3)) (lit_two exact)"
      "Fin 0 = fdiv exact (fadd exact (Fin (- 1)) (Fin 1)) (lit_two exact)"
      "Fin (- 1) = fdiv exact (fadd exact (Fin (- 3)) (Fin 1)) (lit_two exact)"
    by (simp_all add: ev)
  have s0: "after_iters 0 (bisection_body exact (\<lambda>x. x)) (Fin (- 1), Fin 3) = Some (Fin (- 1), Fin 3)"
      "after_iters 0 (bisection_body exact (\<lambda>x. x)) (Fin (- 3), Fin 1) = Some (Fin (- 3), Fin 1)"
    by simp_all
  have one: "after_iters (Suc 0) (bisection_body exact (\<lambda>x. x)) (Fin (- 1), Fin 3)
      = Some (Fin (- 1), Fin 1)"
    using bisection_iteration [where f = "\<lambda>x. x" and root_in = "Fin 9",
        OF pre(1) pre(2) pre(3) s0(1) _ mid(1)]
    by (simp add: ev)
  have two: "bisection exact (\<lambda>x. x) (Fin (- 1)) (Fin 3) (Fin 9) = Outcome True (Fin 0) (Suc (Suc 0))"
    using bisection_iteration [where f = "\<lambda>x. x" and root_in = "Fin 9",
        OF pre(1) pre(2) pre(3) one _ mid(2)]
    by (simp add: ev)
  have three: "after_iters (Suc 0) (bisection_body exact (\<lambda>x. x)) (Fin (- 3), Fin 1)
      = Some (Fin (- 1), Fin 1)"
    using bisection_iteration [where f = "\<lambda>x. x" and root_in = "Fin 9",
        OF pre(4) pre(5) pre(6) s0(2) _ mid(3)]
    by (simp add: ev)
  from one two three show ?thesis by (simp only: One_nat_def numeral_2_eq_2 simp_thms)
qed



text \<open>
  C3. \<^verbatim>\<open>secant\<close> starts from \<open>prev_x = a\<close>, \<open>x = b\<close>. Let iteration \<open>n\<close> (counted from 0, below
  the cap) start with \<open>prev_x\<close>, \<open>x\<close> and pass the slope guard, and let
  \<open>x_next = x - f x * (x - prev_x) / (f x - f prev_x)\<close>. If \<open>x_next < a\<close> or \<open>x_next > b\<close>, for
  the \<open>a\<close> and \<open>b\<close> the call was given, the call returns \<^verbatim>\<open>false\<close> in this iteration; if not,
  and \<open>|x_next - x| < 1e-6\<close>, it returns \<^verbatim>\<open>true\<close> with \<open>x_next\<close> at \<^verbatim>\<open>*root\<close>; if neither, the
  next iteration starts with \<open>x\<close>, \<open>x_next\<close>.
\<close>

theorem secant_iteration:
  assumes "after_iters n (secant_body A f a b) (a, b) = Some (prev_x, x)" and "n < 1000000"
    and "\<not> flt A (fabs A (fsub A (f x) (f prev_x))) (lit_tol A)"
    and "x_next = fsub A x (fdiv A (fmul A (f x) (fsub A x prev_x)) (fsub A (f x) (f prev_x)))"
  shows
    "after_iters 0 (secant_body A f a b) (a, b) = Some (a, b) \<and>
     (flt A x_next a \<or> fgt A x_next b \<longrightarrow>
        secant A f a b c root_in = Outcome False root_in (Suc n)) \<and>
     (\<not> flt A x_next a \<and> \<not> fgt A x_next b \<and>
      flt A (fabs A (fsub A x_next x)) (lit_tol A) \<longrightarrow>
        secant A f a b c root_in = Outcome True x_next (Suc n)) \<and>
     (\<not> flt A x_next a \<and> \<not> fgt A x_next b \<and>
      \<not> flt A (fabs A (fsub A x_next x)) (lit_tol A) \<longrightarrow>
        after_iters (Suc n) (secant_body A f a b) (a, b) = Some (x, x_next))"
proof (intro conjI impI)
  show "after_iters 0 (secant_body A f a b) (a, b) = Some (a, b)" by simp
next
  assume "flt A x_next a \<or> fgt A x_next b"
  then have "secant_body A f a b (prev_x, x) = ReturnFalse"
    using assms(3,4) by (simp add: secant_body_def Let_def)
  from for_loop_returns_false [OF assms(1) _ this, of 0 root_in] assms(2)
  show "secant A f a b c root_in = Outcome False root_in (Suc n)"
    by (simp add: secant_def)
next
  assume "\<not> flt A x_next a \<and> \<not> fgt A x_next b \<and>
      flt A (fabs A (fsub A x_next x)) (lit_tol A)"
  then have "secant_body A f a b (prev_x, x) = ReturnRoot x_next"
    using assms(3,4) by (simp add: secant_body_def Let_def)
  from for_loop_returns_root [OF assms(1) _ this, of 0 root_in] assms(2)
  show "secant A f a b c root_in = Outcome True x_next (Suc n)"
    by (simp add: secant_def)
next
  assume "\<not> flt A x_next a \<and> \<not> fgt A x_next b \<and>
      \<not> flt A (fabs A (fsub A x_next x)) (lit_tol A)"
  then have "secant_body A f a b (prev_x, x) = Continue (x, x_next)"
    using assms(3,4) by (simp add: secant_body_def Let_def)
  with assms(1) show "after_iters (Suc n) (secant_body A f a b) (a, b) = Some (x, x_next)"
    by (rule after_iters_step)
qed

theorem secant_iteration_witness:
  "secant exact (\<lambda>x. xsub x (Fin 3)) (Fin 0) (Fin 2) (Fin 7) (Fin 9) = Outcome False (Fin 9) 1 \<and>
   after_iters 1 (secant_body exact (\<lambda>x. xsub x (Fin 1)) (Fin 0) (Fin 2)) (Fin 0, Fin 2)
     = Some (Fin 2, Fin 1) \<and>
   secant exact (\<lambda>x. xsub x (Fin 1)) (Fin 0) (Fin 2) (Fin 7) (Fin 9) = Outcome True (Fin 1) 2"
proof -
  note ev = exact_def flt_def fgt_def feq_def
  have s0: "after_iters 0 (secant_body exact (\<lambda>x. xsub x (Fin 3)) (Fin 0) (Fin 2)) (Fin 0, Fin 2)
        = Some (Fin 0, Fin 2)"
      "after_iters 0 (secant_body exact (\<lambda>x. xsub x (Fin 1)) (Fin 0) (Fin 2)) (Fin 0, Fin 2)
        = Some (Fin 0, Fin 2)"
    by simp_all
  have guard:
      "\<not> flt exact (fabs exact (fsub exact (xsub (Fin 2) (Fin 3)) (xsub (Fin 0) (Fin 3)))) (lit_tol exact)"
      "\<not> flt exact (fabs exact (fsub exact (xsub (Fin 2) (Fin 1)) (xsub (Fin 0) (Fin 1)))) (lit_tol exact)"
      "\<not> flt exact (fabs exact (fsub exact (xsub (Fin 1) (Fin 1)) (xsub (Fin 2) (Fin 1)))) (lit_tol exact)"
    by (simp_all add: ev)
  have nxt:
      "Fin 3 = fsub exact (Fin 2) (fdiv exact (fmul exact (xsub (Fin 2) (Fin 3)) (fsub exact (Fin 2) (Fin 0)))
          (fsub exact (xsub (Fin 2) (Fin 3)) (xsub (Fin 0) (Fin 3))))"
      "Fin 1 = fsub exact (Fin 2) (fdiv exact (fmul exact (xsub (Fin 2) (Fin 1)) (fsub exact (Fin 2) (Fin 0)))
          (fsub exact (xsub (Fin 2) (Fin 1)) (xsub (Fin 0) (Fin 1))))"
      "Fin 1 = fsub exact (Fin 1) (fdiv exact (fmul exact (xsub (Fin 1) (Fin 1)) (fsub exact (Fin 1) (Fin 2)))
          (fsub exact (xsub (Fin 1) (Fin 1)) (xsub (Fin 2) (Fin 1))))"
    by (simp_all add: ev)
  have outside: "secant exact (\<lambda>x. xsub x (Fin 3)) (Fin 0) (Fin 2) (Fin 7) (Fin 9)
      = Outcome False (Fin 9) (Suc 0)"
    using secant_iteration [where f = "\<lambda>x. xsub x (Fin 3)" and c = "Fin 7" and root_in = "Fin 9",
        OF s0(1) _ guard(1) nxt(1)]
    by (simp add: ev)
  have goes_on: "after_iters (Suc 0) (secant_body exact (\<lambda>x. xsub x (Fin 1)) (Fin 0) (Fin 2)) (Fin 0, Fin 2)
      = Some (Fin 2, Fin 1)"
    using secant_iteration [where f = "\<lambda>x. xsub x (Fin 1)" and c = "Fin 7" and root_in = "Fin 9",
        OF s0(2) _ guard(2) nxt(2)]
    by (simp add: ev)
  have converged: "secant exact (\<lambda>x. xsub x (Fin 1)) (Fin 0) (Fin 2) (Fin 7) (Fin 9)
      = Outcome True (Fin 1) (Suc (Suc 0))"
    using secant_iteration [where f = "\<lambda>x. xsub x (Fin 1)" and c = "Fin 7" and root_in = "Fin 9",
        OF goes_on _ guard(3) nxt(3)]
    by (simp add: ev)
  from outside goes_on converged show ?thesis
    by (simp only: One_nat_def numeral_2_eq_2 simp_thms)
qed

text \<open>
  C4. Every solver is a total function: the loop is defined by recursion on the counter,
  with the measure \<open>1000000 - count\<close>, so a call returns for every \<open>f\<close>, \<open>g\<close>, \<open>a\<close>, \<open>b\<close>, \<open>c\<close>
  and every arithmetic. It returns \<^verbatim>\<open>true\<close> or \<^verbatim>\<open>false\<close> after entering at most 1,000,000 loop
  bodies. The cap does end runs: on the constant \<open>f x = 1\<close>, with \<open>g x = -1\<close>, bounds
  \<open>[0, 1000000]\<close> and guess 0, \<^verbatim>\<open>newton_raphson\<close> returns \<^verbatim>\<open>false\<close> after 999,999 iterations.
\<close>

theorem solvers_within_iteration_cap:
  "iterations (bisection A f a b root_in) \<le> 1000000 \<and>
   iterations (regula_falsi A f a b root_in) \<le> 1000000 \<and>
   iterations (newton_raphson A f g a b c root_in) \<le> 1000000 \<and>
   iterations (secant A f a b c root_in) \<le> 1000000 \<and>
   newton_raphson exact (\<lambda>x. Fin 1) (\<lambda>x. Fin (- 1)) (Fin 0) (Fin 1000000) (Fin 0) r'
     = Outcome False r' 999999"
proof (intro conjI)
  show "iterations (bisection A f a b root_in) \<le> 1000000"
    using for_loop_iterations [of 0 "bisection_body A f" "(a, b)" root_in]
    by (simp add: bisection_def)
  show "iterations (regula_falsi A f a b root_in) \<le> 1000000"
    using for_loop_iterations [of 0 "regula_falsi_body A f" "(a, b)" root_in]
    by (simp add: regula_falsi_def)
  show "iterations (newton_raphson A f g a b c root_in) \<le> 1000000"
    using for_loop_iterations [of 1 "newton_raphson_body A f g a b" c root_in]
    by (simp add: newton_raphson_def)
  show "iterations (secant A f a b c root_in) \<le> 1000000"
    using for_loop_iterations [of 0 "secant_body A f a b" "(a, b)" root_in]
    by (simp add: secant_def)
  show "newton_raphson exact (\<lambda>x. Fin 1) (\<lambda>x. Fin (- 1)) (Fin 0) (Fin 1000000) (Fin 0) r'
     = Outcome False r' 999999"
    by (rule newton_raphson_constant_exhausts)
qed

text \<open>
  C5. Whenever one of the four solvers returns \<^verbatim>\<open>false\<close>, whatever the cause, the value at
  \<^verbatim>\<open>*root\<close> after the call is the value it had before the call.
\<close>

theorem failure_leaves_root_untouched:
  "(\<not> found (bisection A f a b root_in) \<longrightarrow> root_out (bisection A f a b root_in) = root_in) \<and>
   (\<not> found (regula_falsi A f a b root_in) \<longrightarrow> root_out (regula_falsi A f a b root_in) = root_in) \<and>
   (\<not> found (newton_raphson A f g a b c root_in) \<longrightarrow>
      root_out (newton_raphson A f g a b c root_in) = root_in) \<and>
   (\<not> found (secant A f a b c root_in) \<longrightarrow> root_out (secant A f a b c root_in) = root_in)"
proof (intro conjI impI)
  assume "\<not> found (bisection A f a b root_in)"
  then show "root_out (bisection A f a b root_in) = root_in"
    using for_loop_frame [of 0 "bisection_body A f" "(a, b)" root_in]
    by (simp add: bisection_def split: if_splits)
next
  assume "\<not> found (regula_falsi A f a b root_in)"
  then show "root_out (regula_falsi A f a b root_in) = root_in"
    using for_loop_frame [of 0 "regula_falsi_body A f" "(a, b)" root_in]
    by (simp add: regula_falsi_def split: if_splits)
next
  assume "\<not> found (newton_raphson A f g a b c root_in)"
  then show "root_out (newton_raphson A f g a b c root_in) = root_in"
    using for_loop_frame [of 1 "newton_raphson_body A f g a b" c root_in]
    by (simp add: newton_raphson_def)
next
  assume "\<not> found (secant A f a b c root_in)"
  then show "root_out (secant A f a b c root_in) = root_in"
    using for_loop_frame [of 0 "secant_body A f a b" "(a, b)" root_in]
    by (simp add: secant_def)
qed

theorem failure_leaves_root_untouched_witness:
  "\<not> found (bisection exact (\<lambda>x. Fin 1) (Fin 0) (Fin 2) (Fin 9)) \<and>
   root_out (bisection exact (\<lambda>x. Fin 1) (Fin 0) (Fin 2) (Fin 9)) = Fin 9 \<and>
   \<not> found (regula_falsi exact (\<lambda>x. x) (Fin 0) (Fin 2) (Fin 9)) \<and>
   root_out (regula_falsi exact (\<lambda>x. x) (Fin 0) (Fin 2) (Fin 9)) = Fin 9 \<and>
   \<not> found (newton_raphson exact (\<lambda>x. xsub x (Fin 3)) (\<lambda>x. Fin 1) (Fin 0) (Fin 2) (Fin 1) (Fin 9)) \<and>
   root_out (newton_raphson exact (\<lambda>x. xsub x (Fin 3)) (\<lambda>x. Fin 1) (Fin 0) (Fin 2) (Fin 1) (Fin 9)) = Fin 9 \<and>
   \<not> found (secant exact (\<lambda>x. Fin 1) (Fin 0) (Fin 2) (Fin 7) (Fin 9)) \<and>
   root_out (secant exact (\<lambda>x. Fin 1) (Fin 0) (Fin 2) (Fin 7) (Fin 9)) = Fin 9"
proof -
  have nf: "\<not> found (bisection exact (\<lambda>x. Fin 1) (Fin 0) (Fin 2) (Fin 9))"
      "\<not> found (regula_falsi exact (\<lambda>x. x) (Fin 0) (Fin 2) (Fin 9))"
      "\<not> found (newton_raphson exact (\<lambda>x. xsub x (Fin 3)) (\<lambda>x. Fin 1) (Fin 0) (Fin 2) (Fin 1) (Fin 9))"
      "\<not> found (secant exact (\<lambda>x. Fin 1) (Fin 0) (Fin 2) (Fin 7) (Fin 9))"
    by (simp_all add: eval_simps)
  from nf
    failure_leaves_root_untouched [where A = exact and f = "\<lambda>x. Fin 1" and a = "Fin 0"
      and b = "Fin 2" and c = "Fin 7" and root_in = "Fin 9"]
    failure_leaves_root_untouched [where A = exact and f = "\<lambda>x. x" and a = "Fin 0"
      and b = "Fin 2" and root_in = "Fin 9"]
    failure_leaves_root_untouched [where A = exact and f = "\<lambda>x. xsub x (Fin 3)" and g = "\<lambda>x. Fin 1"
      and a = "Fin 0" and b = "Fin 2" and c = "Fin 1" and root_in = "Fin 9"]
  show ?thesis by blast
qed

text \<open>
  C6, as the code has it. \<^verbatim>\<open>regula_falsi\<close> returns \<^verbatim>\<open>false\<close> before its loop whenever
  \<open>f a * f b >= 0\<close>, and it has no test of an endpoint against zero. When \<open>f a == 0\<close> or
  \<open>f b == 0\<close> and the product \<open>f a * f b\<close> is exactly zero, it returns \<^verbatim>\<open>false\<close> and stores no
  root; the product is exactly zero when the other endpoint value is ordered with zero and
  the product keeps the sign law.
\<close>

theorem regula_falsi_strict_precondition:
  "(fge A (fmul A (f a) (f b)) (lit_zero A) \<longrightarrow>
      regula_falsi A f a b root_in = Outcome False root_in 0) \<and>
   ((feq A (f a) (lit_zero A) \<or> feq A (f b) (lit_zero A)) \<and>
    feq A (fmul A (f a) (f b)) (lit_zero A) \<longrightarrow>
      regula_falsi A f a b root_in = Outcome False root_in 0) \<and>
   ((feq A (f a) (lit_zero A) \<and> sign_of A (f b) \<noteq> FUnordered \<or>
     feq A (f b) (lit_zero A) \<and> sign_of A (f a) \<noteq> FUnordered) \<and>
    product_sign A (f a) (f b) \<longrightarrow>
      feq A (fmul A (f a) (f b)) (lit_zero A) \<and>
      regula_falsi A f a b root_in = Outcome False root_in 0)"
proof (intro conjI impI)
  assume "fge A (fmul A (f a) (f b)) (lit_zero A)"
  then show "regula_falsi A f a b root_in = Outcome False root_in 0"
    by (simp add: regula_falsi_def)
next
  assume "(feq A (f a) (lit_zero A) \<or> feq A (f b) (lit_zero A)) \<and>
    feq A (fmul A (f a) (f b)) (lit_zero A)"
  then have "fge A (fmul A (f a) (f b)) (lit_zero A)"
    by (simp add: fge_def feq_def)
  then show "regula_falsi A f a b root_in = Outcome False root_in 0"
    by (simp add: regula_falsi_def)
next
  assume h: "(feq A (f a) (lit_zero A) \<and> sign_of A (f b) \<noteq> FUnordered \<or>
     feq A (f b) (lit_zero A) \<and> sign_of A (f a) \<noteq> FUnordered) \<and>
    product_sign A (f a) (f b)"
  then have "sign_times (sign_of A (f a)) (sign_of A (f b)) = FEqual"
    by (cases "sign_of A (f a)"; cases "sign_of A (f b)") (auto simp add: feq_def sign_of_def)
  with h show z: "feq A (fmul A (f a) (f b)) (lit_zero A)"
    by (simp add: product_sign_def feq_def sign_of_def)
  then have "fge A (fmul A (f a) (f b)) (lit_zero A)"
    by (simp add: fge_def feq_def)
  then show "regula_falsi A f a b root_in = Outcome False root_in 0"
    by (simp add: regula_falsi_def)
qed

theorem regula_falsi_strict_precondition_witness:
  "regula_falsi exact (\<lambda>x. Fin 1) (Fin 0) (Fin 2) (Fin 9) = Outcome False (Fin 9) 0 \<and>
   regula_falsi exact (\<lambda>x. x) (Fin 0) (Fin 2) (Fin 9) = Outcome False (Fin 9) 0 \<and>
   feq exact (fmul exact (Fin (- 2)) (Fin 0)) (lit_zero exact) \<and>
   regula_falsi exact (\<lambda>x. x) (Fin (- 2)) (Fin 0) (Fin 9) = Outcome False (Fin 9) 0"
proof -
  have pos: "fge exact (fmul exact (Fin 1) (Fin 1)) (lit_zero exact)"
    by (simp add: exact_def fge_def)
  have zero: "(feq exact (Fin 0) (lit_zero exact) \<or> feq exact (Fin 2) (lit_zero exact)) \<and>
      feq exact (fmul exact (Fin 0) (Fin 2)) (lit_zero exact)"
    by (simp add: exact_def feq_def)
  have law: "(feq exact (Fin (- 2)) (lit_zero exact) \<and> sign_of exact (Fin 0) \<noteq> FUnordered \<or>
       feq exact (Fin 0) (lit_zero exact) \<and> sign_of exact (Fin (- 2)) \<noteq> FUnordered) \<and>
      product_sign exact (Fin (- 2)) (Fin 0)"
    by (simp add: exact_def feq_def sign_of_def product_sign_def)
  from pos zero law
    regula_falsi_strict_precondition [where A = exact and f = "\<lambda>x. Fin 1" and a = "Fin 0"
      and b = "Fin 2" and root_in = "Fin 9"]
    regula_falsi_strict_precondition [where A = exact and f = "\<lambda>x. x" and a = "Fin 0"
      and b = "Fin 2" and root_in = "Fin 9"]
    regula_falsi_strict_precondition [where A = exact and f = "\<lambda>x. x" and a = "Fin (- 2)"
      and b = "Fin 0" and root_in = "Fin 9"]
  show ?thesis by blast
qed

text \<open>
  C6, as the claim states it, fails. \<open>f x = x / (2 - x)\<close> is \<open>0\<close> at \<open>0\<close> and \<open>+inf\<close> at \<open>2\<close>, and
  zero times infinity is NaN, which is not \<open>>= 0\<close>. \<^verbatim>\<open>regula_falsi\<close> on \<open>[0, 2]\<close>, where
  \<open>f a == 0\<close>, passes its check, computes \<open>c = 0\<close> in its first iteration and returns \<^verbatim>\<open>true\<close>
  with the endpoint \<open>a\<close> as the root.
\<close>

theorem regula_falsi_zero_endpoint_returned:
  "feq exact (xdiv (Fin 0) (xsub (Fin 2) (Fin 0))) (lit_zero exact) \<and>
   xdiv (Fin 2) (xsub (Fin 2) (Fin 2)) = PInf \<and>
   \<not> fge exact (fmul exact (xdiv (Fin 0) (xsub (Fin 2) (Fin 0))) (xdiv (Fin 2) (xsub (Fin 2) (Fin 2))))
       (lit_zero exact) \<and>
   regula_falsi exact (\<lambda>x. xdiv x (xsub (Fin 2) x)) (Fin 0) (Fin 2) (Fin 9) = Outcome True (Fin 0) 1"
  by (simp add: regula_falsi_def regula_falsi_body_def exact_def flt_def fgt_def fge_def feq_def
      for_loop.simps Let_def)

text \<open>
  C7. The two tests ahead of everything else in \<^verbatim>\<open>bisection\<close>, in the order of the code: if
  \<open>f a == 0\<close> the call returns \<^verbatim>\<open>true\<close> with \<open>a\<close> at \<^verbatim>\<open>*root\<close>; if that test did not return and
  \<open>f b == 0\<close>, it returns \<^verbatim>\<open>true\<close> with \<open>b\<close> at \<^verbatim>\<open>*root\<close>. Either way no loop body is entered and
  the sign of \<open>f a * f b\<close> plays no part; \<open>==\<close> is the comparison of the arithmetic, with no
  tolerance. So \<open>f b == 0\<close> always gives an immediate \<^verbatim>\<open>true\<close> with an endpoint at which \<open>f\<close> is
  exactly zero. On \<open>f x = x\<close> over \<open>[0, 2]\<close> the call returns \<^verbatim>\<open>true\<close> with root 0.
\<close>

theorem bisection_zero_endpoint:
  "(feq A (f a) (lit_zero A) \<longrightarrow> bisection A f a b root_in = Outcome True a 0) \<and>
   (\<not> feq A (f a) (lit_zero A) \<and> feq A (f b) (lit_zero A) \<longrightarrow>
      bisection A f a b root_in = Outcome True b 0) \<and>
   (feq A (f b) (lit_zero A) \<longrightarrow>
      found (bisection A f a b root_in) \<and> iterations (bisection A f a b root_in) = 0 \<and>
      feq A (f (root_out (bisection A f a b root_in))) (lit_zero A)) \<and>
   bisection exact (\<lambda>x. x) (Fin 0) (Fin 2) r' = Outcome True (Fin 0) 0"
  by (simp add: bisection_def exact_def feq_def)

theorem bisection_zero_endpoint_witness:
  "bisection exact (\<lambda>x. x) (Fin 0) (Fin 2) (Fin 9) = Outcome True (Fin 0) 0 \<and>
   bisection exact (\<lambda>x. x) (Fin (- 2)) (Fin 0) (Fin 9) = Outcome True (Fin 0) 0 \<and>
   found (bisection exact (\<lambda>x. xsub (xmul x x) (Fin 1)) (Fin (- 1)) (Fin 1) (Fin 9)) \<and>
   iterations (bisection exact (\<lambda>x. xsub (xmul x x) (Fin 1)) (Fin (- 1)) (Fin 1) (Fin 9)) = 0"
proof -
  have a0: "feq exact (Fin 0) (lit_zero exact)"
    and b0: "\<not> feq exact (Fin (- 2)) (lit_zero exact) \<and> feq exact (Fin 0) (lit_zero exact)"
    and both: "feq exact (xsub (xmul (Fin 1) (Fin 1)) (Fin 1)) (lit_zero exact)"
    by (simp_all add: exact_def feq_def)
  from a0 b0 both
    bisection_zero_endpoint [where A = exact and f = "\<lambda>x. x" and a = "Fin 0" and b = "Fin 2"
      and root_in = "Fin 9" and r' = "Fin 9"]
    bisection_zero_endpoint [where A = exact and f = "\<lambda>x. x" and a = "Fin (- 2)" and b = "Fin 0"
      and root_in = "Fin 9" and r' = "Fin 9"]
    bisection_zero_endpoint [where A = exact and f = "\<lambda>x. xsub (xmul x x) (Fin 1)"
      and a = "Fin (- 1)" and b = "Fin 1" and root_in = "Fin 9" and r' = "Fin 9"]
  show ?thesis by blast
qed

text \<open>
  C8. If iteration \<open>n\<close> of \<^verbatim>\<open>newton_raphson\<close> starts at an \<open>xn\<close> with \<open>|g xn| < 1e-6\<close>, the call
  returns \<^verbatim>\<open>false\<close> in that iteration and leaves \<^verbatim>\<open>*root\<close> alone, and that pass through the body
  ends the same way whatever the division is replaced by: the quotient is not used. With
  \<open>g\<close> the constant 0 (and \<open>|0| < 1e-6\<close>, as in any sound arithmetic) the call fails in its
  first iteration. The same holds for \<^verbatim>\<open>secant\<close> at an iteration that starts with \<open>prev_x\<close>, \<open>x\<close>
  such that \<open>|f x - f prev_x| < 1e-6\<close>.
\<close>

theorem instability_guards:
  "(after_iters n (newton_raphson_body A f g a b) c = Some xn \<and> n < 999999 \<and>
    flt A (fabs A (g xn)) (lit_tol A) \<longrightarrow>
      newton_raphson A f g a b c root_in = Outcome False root_in (Suc n) \<and>
      newton_raphson_body (A\<lparr>fdiv := d\<rparr>) f g a b xn = ReturnFalse) \<and>
   (flt A (fabs A (lit_zero A)) (lit_tol A) \<longrightarrow>
      newton_raphson A f (\<lambda>x. lit_zero A) a b c root_in = Outcome False root_in 1) \<and>
   (after_iters m (secant_body A f a b) (a, b) = Some (prev_x, x) \<and> m < 1000000 \<and>
    flt A (fabs A (fsub A (f x) (f prev_x))) (lit_tol A) \<longrightarrow>
      secant A f a b c root_in = Outcome False root_in (Suc m) \<and>
      secant_body (A\<lparr>fdiv := d\<rparr>) f a b (prev_x, x) = ReturnFalse)"
proof (intro conjI impI)
  assume h: "after_iters n (newton_raphson_body A f g a b) c = Some xn \<and> n < 999999 \<and>
    flt A (fabs A (g xn)) (lit_tol A)"
  then have "newton_raphson_body A f g a b xn = ReturnFalse"
    by (simp add: newton_raphson_body_def Let_def)
  from for_loop_returns_false [where body = "newton_raphson_body A f g a b" and n = n and s = c
      and t = xn and count = 1 and r = root_in] this h
  show "newton_raphson A f g a b c root_in = Outcome False root_in (Suc n)"
    by (simp add: newton_raphson_def)
  from h show "newton_raphson_body (A\<lparr>fdiv := d\<rparr>) f g a b xn = ReturnFalse"
    by (simp add: newton_raphson_body_def Let_def flt_def)
next
  assume "flt A (fabs A (lit_zero A)) (lit_tol A)"
  then have "newton_raphson_body A f (\<lambda>x. lit_zero A) a b c = ReturnFalse"
    by (simp add: newton_raphson_body_def Let_def)
  from for_loop_returns_false [where body = "newton_raphson_body A f (\<lambda>x. lit_zero A) a b"
      and n = 0 and s = c and t = c and count = 1 and r = root_in] this
  show "newton_raphson A f (\<lambda>x. lit_zero A) a b c root_in = Outcome False root_in 1"
    by (simp add: newton_raphson_def)
next
  assume h: "after_iters m (secant_body A f a b) (a, b) = Some (prev_x, x) \<and> m < 1000000 \<and>
    flt A (fabs A (fsub A (f x) (f prev_x))) (lit_tol A)"
  then have "secant_body A f a b (prev_x, x) = ReturnFalse"
    by (simp add: secant_body_def Let_def)
  from for_loop_returns_false [where body = "secant_body A f a b" and n = m and s = "(a, b)"
      and t = "(prev_x, x)" and count = 0 and r = root_in] this h
  show "secant A f a b c root_in = Outcome False root_in (Suc m)"
    by (simp add: secant_def)
  from h show "secant_body (A\<lparr>fdiv := d\<rparr>) f a b (prev_x, x) = ReturnFalse"
    by (simp add: secant_body_def Let_def flt_def)
qed

theorem instability_guards_witness:
  "newton_raphson exact (\<lambda>x. xsub x (Fin 1)) (\<lambda>x. xsub (Fin 1) x) (Fin 0) (Fin 2) (Fin 0) (Fin 9)
     = Outcome False (Fin 9) 2 \<and>
   newton_raphson_body (exact\<lparr>fdiv := xadd\<rparr>) (\<lambda>x. xsub x (Fin 1)) (\<lambda>x. xsub (Fin 1) x) (Fin 0) (Fin 2) (Fin 1)
     = ReturnFalse \<and>
   newton_raphson exact (\<lambda>x. x) (\<lambda>x. Fin 0) (Fin 0) (Fin 2) (Fin 1) (Fin 9) = Outcome False (Fin 9) 1 \<and>
   secant exact (\<lambda>x. Fin 1) (Fin 0) (Fin 2) (Fin 7) (Fin 9) = Outcome False (Fin 9) 1 \<and>
   secant_body (exact\<lparr>fdiv := xadd\<rparr>) (\<lambda>x. Fin 1) (Fin 0) (Fin 2) (Fin 0, Fin 2) = ReturnFalse"
proof -
  note ev = exact_def flt_def fgt_def feq_def
  have nr: "after_iters (Suc 0) (newton_raphson_body exact (\<lambda>x. xsub x (Fin 1)) (\<lambda>x. xsub (Fin 1) x) (Fin 0) (Fin 2)) (Fin 0)
        = Some (Fin 1) \<and> Suc 0 < 999999 \<and>
      flt exact (fabs exact (xsub (Fin 1) (Fin 1))) (lit_tol exact)"
    by (simp add: ev newton_raphson_body_def Let_def)
  have zero: "flt exact (fabs exact (lit_zero exact)) (lit_tol exact)"
    by (simp add: ev)
  have sec: "after_iters 0 (secant_body exact (\<lambda>x. Fin 1) (Fin 0) (Fin 2)) (Fin 0, Fin 2)
        = Some (Fin 0, Fin 2) \<and> 0 < (1000000::nat) \<and>
      flt exact (fabs exact (fsub exact (Fin 1) (Fin 1))) (lit_tol exact)"
    by (simp add: ev)
  have z: "lit_zero exact = Fin 0"
    by (simp add: exact_def)
  from nr zero sec
    instability_guards [where A = exact and f = "\<lambda>x. xsub x (Fin 1)" and g = "\<lambda>x. xsub (Fin 1) x"
      and a = "Fin 0" and b = "Fin 2" and c = "Fin 0" and n = "Suc 0" and xn = "Fin 1"
      and root_in = "Fin 9" and d = xadd]
    instability_guards [where A = exact and f = "\<lambda>x. x" and a = "Fin 0" and b = "Fin 2"
      and c = "Fin 1" and root_in = "Fin 9"]
    instability_guards [where A = exact and f = "\<lambda>x. Fin 1" and a = "Fin 0" and b = "Fin 2"
      and c = "Fin 7" and m = 0 and prev_x = "Fin 0" and x = "Fin 2" and root_in = "Fin 9" and d = xadd]
  show ?thesis
    unfolding z by (simp only: One_nat_def numeral_2_eq_2)
qed

lemma sign_change_kept:
  assumes inv: "flt A (fmul A fa fb) (lit_zero A)"
    and ab: "product_sign A fa fb" and ac: "product_sign A fa fc" and cb: "product_sign A fc fb"
    and ord: "sign_of A fc \<noteq> FUnordered"
    and zero: "feq A fc (lit_zero A) \<longrightarrow> flt A (fabs A fc) (lit_tol A)"
    and nc: "\<not> flt A (fabs A fc) (lit_tol A)"
  shows "if fgt A (fmul A fa fc) (lit_zero A)
         then flt A (fmul A fc fb) (lit_zero A)
         else flt A (fmul A fa fc) (lit_zero A)"
proof -
  from zero nc have "sign_of A fc \<noteq> FEqual"
    by (auto simp add: feq_def sign_of_def)
  with ord have c: "sign_of A fc = FLess \<or> sign_of A fc = FGreater"
    by (cases "sign_of A fc") simp_all
  from inv ab have "sign_times (sign_of A fa) (sign_of A fb) = FLess"
    by (simp add: flt_def product_sign_def sign_of_def)
  then have "sign_of A fa = FLess \<and> sign_of A fb = FGreater \<or>
      sign_of A fa = FGreater \<and> sign_of A fb = FLess"
    by (cases "sign_of A fa"; cases "sign_of A fb") simp_all
  moreover from ac have "sign_of A (fmul A fa fc) = sign_times (sign_of A fa) (sign_of A fc)"
    by (simp add: product_sign_def)
  moreover from cb have "sign_of A (fmul A fc fb) = sign_times (sign_of A fc) (sign_of A fb)"
    by (simp add: product_sign_def)
  ultimately have
    "if sign_of A (fmul A fa fc) = FGreater then sign_of A (fmul A fc fb) = FLess
     else sign_of A (fmul A fa fc) = FLess"
    using c by auto
  then show ?thesis
    by (auto simp add: flt_def fgt_def sign_of_def split: if_splits)
qed

text \<open>
  C9, as the code has it. Let \<open>f a * f b < 0\<close> at the start of an iteration of the bisection
  or of the regula falsi loop that does not return, and let \<open>c\<close> be its trial point. The
  next bracket is \<open>c\<close>, \<open>b\<close> when \<open>f a * f c > 0\<close> and \<open>a\<close>, \<open>c\<close> when not. Its endpoints again
  satisfy \<open>f a * f b < 0\<close> provided that \<open>f c\<close> is not NaN (it is ordered with zero) and that
  the three products \<open>f a * f b\<close>, \<open>f a * f c\<close> and \<open>f c * f b\<close> keep the sign law, in an
  arithmetic where an exact zero is below the tolerance. This holds in every arithmetic,
  rounding included.
\<close>

theorem bracket_sign_change_kept:
  "(flt A (fmul A (f a) (f b)) (lit_zero A) \<and>
    c = fdiv A (fadd A a b) (lit_two A) \<and>
    sign_of A (f c) \<noteq> FUnordered \<and>
    (feq A (f c) (lit_zero A) \<longrightarrow> flt A (fabs A (f c)) (lit_tol A)) \<and>
    product_sign A (f a) (f b) \<and> product_sign A (f a) (f c) \<and> product_sign A (f c) (f b) \<and>
    bisection_body A f (a, b) = Continue (a', b') \<longrightarrow>
      (a', b') = (if fgt A (fmul A (f a) (f c)) (lit_zero A) then (c, b) else (a, c)) \<and>
      flt A (fmul A (f a') (f b')) (lit_zero A)) \<and>
   (flt A (fmul A (f a) (f b)) (lit_zero A) \<and>
    c = fsub A a (fdiv A (fmul A (f a) (fsub A b a)) (fsub A (f b) (f a))) \<and>
    sign_of A (f c) \<noteq> FUnordered \<and>
    (feq A (f c) (lit_zero A) \<longrightarrow> flt A (fabs A (f c)) (lit_tol A)) \<and>
    product_sign A (f a) (f b) \<and> product_sign A (f a) (f c) \<and> product_sign A (f c) (f b) \<and>
    regula_falsi_body A f (a, b) = Continue (a', b') \<longrightarrow>
      (a', b') = (if fgt A (fmul A (f a) (f c)) (lit_zero A) then (c, b) else (a, c)) \<and>
      flt A (fmul A (f a') (f b')) (lit_zero A))"
proof (intro conjI impI)
  assume h: "flt A (fmul A (f a) (f b)) (lit_zero A) \<and>
    c = fdiv A (fadd A a b) (lit_two A) \<and>
    sign_of A (f c) \<noteq> FUnordered \<and>
    (feq A (f c) (lit_zero A) \<longrightarrow> flt A (fabs A (f c)) (lit_tol A)) \<and>
    product_sign A (f a) (f b) \<and> product_sign A (f a) (f c) \<and> product_sign A (f c) (f b) \<and>
    bisection_body A f (a, b) = Continue (a', b')"
  then have nc: "\<not> flt A (fabs A (f c)) (lit_tol A)"
    by (auto simp add: bisection_body_def Let_def split: if_splits)
  from h show ab: "(a', b') = (if fgt A (fmul A (f a) (f c)) (lit_zero A) then (c, b) else (a, c))"
    by (auto simp add: bisection_body_def Let_def split: if_splits)
  from h have inv: "flt A (fmul A (f a) (f b)) (lit_zero A)"
    and ord: "sign_of A (f c) \<noteq> FUnordered"
    and zero: "feq A (f c) (lit_zero A) \<longrightarrow> flt A (fabs A (f c)) (lit_tol A)"
    and p1: "product_sign A (f a) (f b)" and p2: "product_sign A (f a) (f c)"
    and p3: "product_sign A (f c) (f b)"
    by blast+
  from sign_change_kept [OF inv p1 p2 p3 ord zero nc] ab show "flt A (fmul A (f a') (f b')) (lit_zero A)"
    by (auto split: if_splits)
next
  assume h: "flt A (fmul A (f a) (f b)) (lit_zero A) \<and>
    c = fsub A a (fdiv A (fmul A (f a) (fsub A b a)) (fsub A (f b) (f a))) \<and>
    sign_of A (f c) \<noteq> FUnordered \<and>
    (feq A (f c) (lit_zero A) \<longrightarrow> flt A (fabs A (f c)) (lit_tol A)) \<and>
    product_sign A (f a) (f b) \<and> product_sign A (f a) (f c) \<and> product_sign A (f c) (f b) \<and>
    regula_falsi_body A f (a, b) = Continue (a', b')"
  then have nc: "\<not> flt A (fabs A (f c)) (lit_tol A)"
    by (auto simp add: regula_falsi_body_def Let_def split: if_splits)
  from h show ab: "(a', b') = (if fgt A (fmul A (f a) (f c)) (lit_zero A) then (c, b) else (a, c))"
    by (auto simp add: regula_falsi_body_def Let_def split: if_splits)
  from h have inv: "flt A (fmul A (f a) (f b)) (lit_zero A)"
    and ord: "sign_of A (f c) \<noteq> FUnordered"
    and zero: "feq A (f c) (lit_zero A) \<longrightarrow> flt A (fabs A (f c)) (lit_tol A)"
    and p1: "product_sign A (f a) (f b)" and p2: "product_sign A (f a) (f c)"
    and p3: "product_sign A (f c) (f b)"
    by blast+
  from sign_change_kept [OF inv p1 p2 p3 ord zero nc] ab show "flt A (fmul A (f a') (f b')) (lit_zero A)"
    by (auto split: if_splits)
qed

theorem bracket_sign_change_kept_witness:
  "bisection_body exact (\<lambda>x. x) (Fin (- 1), Fin 3) = Continue (Fin (- 1), Fin 1) \<and>
   flt exact (fmul exact (Fin (- 1)) (Fin 1)) (lit_zero exact) \<and>
   regula_falsi_body exact (\<lambda>x. xsub (xmul x x) (Fin 2)) (Fin 0, Fin 2) = Continue (Fin 1, Fin 2) \<and>
   flt exact (fmul exact (xsub (xmul (Fin 1) (Fin 1)) (Fin 2)) (xsub (xmul (Fin 2) (Fin 2)) (Fin 2)))
     (lit_zero exact)"
proof -
  note ev = exact_def flt_def fgt_def feq_def sign_of_def product_sign_def
  have bis: "flt exact (fmul exact (Fin (- 1)) (Fin 3)) (lit_zero exact) \<and>
      Fin 1 = fdiv exact (fadd exact (Fin (- 1)) (Fin 3)) (lit_two exact) \<and>
      sign_of exact (Fin 1) \<noteq> FUnordered \<and>
      (feq exact (Fin 1) (lit_zero exact) \<longrightarrow> flt exact (fabs exact (Fin 1)) (lit_tol exact)) \<and>
      product_sign exact (Fin (- 1)) (Fin 3) \<and> product_sign exact (Fin (- 1)) (Fin 1) \<and>
      product_sign exact (Fin 1) (Fin 3) \<and>
      bisection_body exact (\<lambda>x. x) (Fin (- 1), Fin 3) = Continue (Fin (- 1), Fin 1)"
    by (simp add: ev bisection_body_def Let_def)
  have rf: "flt exact (fmul exact (xsub (xmul (Fin 0) (Fin 0)) (Fin 2)) (xsub (xmul (Fin 2) (Fin 2)) (Fin 2)))
        (lit_zero exact) \<and>
      Fin 1 = fsub exact (Fin 0) (fdiv exact
          (fmul exact (xsub (xmul (Fin 0) (Fin 0)) (Fin 2)) (fsub exact (Fin 2) (Fin 0)))
          (fsub exact (xsub (xmul (Fin 2) (Fin 2)) (Fin 2)) (xsub (xmul (Fin 0) (Fin 0)) (Fin 2)))) \<and>
      sign_of exact (xsub (xmul (Fin 1) (Fin 1)) (Fin 2)) \<noteq> FUnordered \<and>
      (feq exact (xsub (xmul (Fin 1) (Fin 1)) (Fin 2)) (lit_zero exact) \<longrightarrow>
         flt exact (fabs exact (xsub (xmul (Fin 1) (Fin 1)) (Fin 2))) (lit_tol exact)) \<and>
      product_sign exact (xsub (xmul (Fin 0) (Fin 0)) (Fin 2)) (xsub (xmul (Fin 2) (Fin 2)) (Fin 2)) \<and>
      product_sign exact (xsub (xmul (Fin 0) (Fin 0)) (Fin 2)) (xsub (xmul (Fin 1) (Fin 1)) (Fin 2)) \<and>
      product_sign exact (xsub (xmul (Fin 1) (Fin 1)) (Fin 2)) (xsub (xmul (Fin 2) (Fin 2)) (Fin 2)) \<and>
      regula_falsi_body exact (\<lambda>x. xsub (xmul x x) (Fin 2)) (Fin 0, Fin 2) = Continue (Fin 1, Fin 2)"
    by (simp add: ev regula_falsi_body_def Let_def)
  from bis rf
    bracket_sign_change_kept [where A = exact and f = "\<lambda>x. x" and a = "Fin (- 1)" and b = "Fin 3"
      and c = "Fin 1" and a' = "Fin (- 1)" and b' = "Fin 1"]
    bracket_sign_change_kept [where A = exact and f = "\<lambda>x. xsub (xmul x x) (Fin 2)" and a = "Fin 0"
      and b = "Fin 2" and c = "Fin 1" and a' = "Fin 1" and b' = "Fin 2"]
  show ?thesis by blast
qed

text \<open>
  C9, as the claim states it, fails, in two ways.

  A NaN at the trial point. \<open>f x = x / |x|\<close> is \<open>-1\<close> at \<open>-2\<close>, \<open>1\<close> at \<open>2\<close> and NaN at \<open>0\<close>.
  \<^verbatim>\<open>bisection\<close> on \<open>[-2, 2]\<close> passes its checks and starts its first iteration with
  \<open>f a * f b < 0\<close>; the iteration does not return and replaces \<open>b\<close> by the midpoint \<open>0\<close>; the
  new endpoints do not satisfy \<open>f a * f b < 0\<close>.

  A product that underflows. \<open>tiny_at_zero\<close> is the smallest positive \<^verbatim>\<open>double\<close> at \<open>0\<close>,
  \<open>-1/4\<close> at \<open>1\<close> and \<open>-1\<close> at \<open>2\<close>; all its values are numbers. \<^verbatim>\<open>bisection\<close> on \<open>[0, 2]\<close>
  passes its checks and starts its first iteration with \<open>f a * f b < 0\<close>; \<open>f a * f c\<close> is
  rounded to zero, so the iteration replaces \<open>b\<close> by the midpoint \<open>1\<close>, and the new endpoints
  do not satisfy \<open>f a * f b < 0\<close>.
\<close>

theorem bracket_sign_change_lost:
  "\<not> feq exact (xdiv (Fin (- 2)) (xabs (Fin (- 2)))) (lit_zero exact) \<and>
   \<not> feq exact (xdiv (Fin 2) (xabs (Fin 2))) (lit_zero exact) \<and>
   flt exact (fmul exact (xdiv (Fin (- 2)) (xabs (Fin (- 2)))) (xdiv (Fin 2) (xabs (Fin 2))))
     (lit_zero exact) \<and>
   bisection_body exact (\<lambda>x. xdiv x (xabs x)) (Fin (- 2), Fin 2) = Continue (Fin (- 2), Fin 0) \<and>
   \<not> flt exact (fmul exact (xdiv (Fin (- 2)) (xabs (Fin (- 2)))) (xdiv (Fin 0) (xabs (Fin 0))))
     (lit_zero exact) \<and>
   \<not> feq underflowing (tiny_at_zero (Fin 0)) (lit_zero underflowing) \<and>
   \<not> feq underflowing (tiny_at_zero (Fin 2)) (lit_zero underflowing) \<and>
   flt underflowing (fmul underflowing (tiny_at_zero (Fin 0)) (tiny_at_zero (Fin 2)))
     (lit_zero underflowing) \<and>
   tiny_at_zero (Fin 1) = Fin (- (1 / 4)) \<and>
   bisection_body underflowing tiny_at_zero (Fin 0, Fin 2) = Continue (Fin 0, Fin 1) \<and>
   \<not> flt underflowing (fmul underflowing (tiny_at_zero (Fin 0)) (tiny_at_zero (Fin 1)))
     (lit_zero underflowing)"
  by (simp add: exact_def underflowing_def tiny_at_zero_def flt_def fgt_def feq_def
      bisection_body_def Let_def)

text \<open>
  C10. The result of \<^verbatim>\<open>secant\<close> does not depend on its third scalar parameter \<^verbatim>\<open>c\<close>: two
  calls that differ only there return the same \<^verbatim>\<open>bool\<close> and leave the same value at
  \<^verbatim>\<open>*root\<close> (and run the same number of iterations).
\<close>

theorem secant_ignores_c: "secant A f a b c1 root_in = secant A f a b c2 root_in"
  by (simp add: secant_def)

end
